theory Spec2Isabelle
  imports Main
begin

section \<open>The example Python vulnerability detector\<close>

text \<open>
  The source is one class, \<open>ExamplePyVulnDetector\<close>, with four methods:
  \<open>GetPluginDefinition\<close>, \<open>Detect\<close>, \<open>_BuildDetectionReport\<close> and
  \<open>IsServiceVulnerable\<close>. It builds protobuf messages whose declarations live in the
  host scanner. A message is modelled as a record holding the fields the plugin sets
  (every other field keeps its default and is left out), an enum as a datatype.
\<close>

subsection \<open>Messages\<close>

text \<open>
  The enums are declared by the host. The plugin names one member of each; the remaining
  members are kept apart from it by their number.
\<close>

datatype PluginType = VULN_DETECTION | PluginType_other nat

datatype DetectionStatus = VULNERABILITY_VERIFIED | DetectionStatus_other nat

datatype Severity = CRITICAL | Severity_other nat

record Timestamp =
  seconds :: int
  nanos :: int

record VulnerabilityId =
  publisher :: string
  "value" :: string

record TextData =
  "text" :: string

record AdditionalDetail =
  text_data :: TextData

record Vulnerability =
  main_id :: VulnerabilityId
  severity :: Severity
  title :: string
  description :: string
  additional_details :: "AdditionalDetail list"

text \<open>
  \<open>TargetInfo\<close> and \<open>NetworkService\<close> are messages of the host that the plugin
  only passes on, so they are the type parameters \<open>'t\<close> and \<open>'s\<close>. A message field
  that was given no value is unset: the timestamp field is an option.
\<close>

record ('t, 's) DetectionReport =
  target_info :: 't
  network_service :: 's
  detection_timestamp :: "Timestamp option"
  detection_status :: DetectionStatus
  vulnerability :: Vulnerability

record ('t, 's) DetectionReportList =
  detection_reports :: "('t, 's) DetectionReport list"

record PluginInfo =
  type :: PluginType
  name :: string
  version :: string
  description :: string
  author :: string

record PluginDefinition =
  info :: PluginInfo

subsection \<open>Effects\<close>

text \<open>
  The plugin has two effects: \<open>logging.info\<close> appends a line to the log, and
  \<open>timestamp_pb2.Timestamp().GetCurrentTime()\<close> asks the protobuf library for the
  time. What that expression evaluates to is decided outside the source, so it is a
  parameter: the clock gives the value of its \<open>k\<close>-th evaluation, \<open>None\<close> when the
  call hands back no value and the field stays unset. The world counts the evaluations.
\<close>

type_synonym clock = "nat \<Rightarrow> Timestamp option"

record world =
  info_log :: "string list"
  clock_reads :: nat

definition logging_info :: "string \<Rightarrow> world \<Rightarrow> world" where
  "logging_info msg w = w\<lparr>info_log := info_log w @ [msg]\<rparr>"

definition GetCurrentTime :: "clock \<Rightarrow> world \<Rightarrow> Timestamp option \<times> world" where
  "GetCurrentTime now w = (now (clock_reads w), w\<lparr>clock_reads := Suc (clock_reads w)\<rparr>)"

subsection \<open>The methods\<close>

text \<open>
  The class declares no attribute and no constructor; \<open>self\<close> is kept as an argument
  of any type, so that a statement about a method holds for every instance.
\<close>

definition GetPluginDefinition :: "'self \<Rightarrow> PluginDefinition" where
  "GetPluginDefinition self =
     \<lparr>info =
        \<lparr>type = VULN_DETECTION,
         name = ''ExamplePyVulnDetector'',
         version = ''0.1'',
         PluginInfo.description = ''This is an example python plugin'',
         author = ''Alice (alice@company.com)''\<rparr>\<rparr>"

definition IsServiceVulnerable :: "'self \<Rightarrow> bool" where
  "IsServiceVulnerable self = True"

text \<open>
  \<open>_BuildDetectionReport\<close> in the source (a name cannot start with an underscore here).
\<close>

definition BuildDetectionReport ::
  "'self \<Rightarrow> clock \<Rightarrow> 't \<Rightarrow> 's \<Rightarrow> world \<Rightarrow> ('t, 's) DetectionReport \<times> world" where
  "BuildDetectionReport self now target vulnerable_service w =
     (case GetCurrentTime now w of
        (ts, w') \<Rightarrow>
          (\<lparr>target_info = target,
            network_service = vulnerable_service,
            detection_timestamp = ts,
            detection_status = VULNERABILITY_VERIFIED,
            vulnerability =
              \<lparr>main_id =
                 \<lparr>publisher = ''vulnerability_id_publisher'',
                  value = ''VULNERABILITY_ID''\<rparr>,
               severity = CRITICAL,
               title = ''Vulnerability Title'',
               Vulnerability.description = ''Detailed description of the vulnerability'',
               additional_details =
                 [\<lparr>text_data = \<lparr>text = ''Some additional technical details.''\<rparr>\<rparr>]\<rparr>\<rparr>,
           w'))"

text \<open>
  The list comprehension of \<open>Detect\<close>: for each service in order, the condition
  \<open>self.IsServiceVulnerable()\<close> is evaluated first and the report is built only when
  it holds.
\<close>

primrec Detect_comprehension ::
  "'self \<Rightarrow> clock \<Rightarrow> 't \<Rightarrow> 's list \<Rightarrow> world \<Rightarrow> ('t, 's) DetectionReport list \<times> world" where
  "Detect_comprehension self now target [] w = ([], w)"
| "Detect_comprehension self now target (service # matched_services) w =
     (if IsServiceVulnerable self
      then (case BuildDetectionReport self now target service w of
              (r, w') \<Rightarrow>
                (case Detect_comprehension self now target matched_services w' of
                   (rs, w'') \<Rightarrow> (r # rs, w'')))
      else Detect_comprehension self now target matched_services w)"

definition Detect ::
  "'self \<Rightarrow> clock \<Rightarrow> 't \<Rightarrow> 's list \<Rightarrow> world \<Rightarrow> ('t, 's) DetectionReportList \<times> world" where
  "Detect self now target matched_services w =
     (case Detect_comprehension self now target matched_services
             (logging_info ''ExamplePyVulnDetector starts detecting.'' w) of
        (rs, w') \<Rightarrow> (\<lparr>detection_reports = rs\<rparr>, w'))"

subsection \<open>Library calls that raise\<close>









subsection \<open>Example inputs\<close>

text \<open>
  Concrete inputs on which the properties below are evaluated: a clock whose calls hand
  back no value, a clock that advances by one second per call, a world with an empty
  log in which the clock was never read, a library whose calls all return, and a library
  whose second time call raises.
\<close>

definition clock_unset :: clock where
  "clock_unset k = None"

definition clock_seconds :: clock where
  "clock_seconds k = Some \<lparr>seconds = int k, nanos = 0\<rparr>"

definition world0 :: world where
  "world0 = \<lparr>info_log = [], clock_reads = 0\<rparr>"



section \<open>The comprehension, unfolded\<close>

text \<open>
  \<open>IsServiceVulnerable\<close> holds on every instance, so each step of the comprehension
  builds a report and reads the clock once.
\<close>

lemma Detect_comprehension_step:
  "Detect_comprehension self now target (service # matched_services) w =
     (fst (BuildDetectionReport self now target service w) #
        fst (Detect_comprehension self now target matched_services
               (w\<lparr>clock_reads := Suc (clock_reads w)\<rparr>)),
      snd (Detect_comprehension self now target matched_services
               (w\<lparr>clock_reads := Suc (clock_reads w)\<rparr>)))"
  by (simp add: IsServiceVulnerable_def BuildDetectionReport_def GetCurrentTime_def
      split: prod.splits)

lemma enumerate_shift:
  "map (\<lambda>(i, x). f (Suc i) x) (enumerate m xs) = map (\<lambda>(i, x). f i x) (enumerate (Suc m) xs)"
  by (induction xs arbitrary: m) simp_all

lemma Detect_comprehension_closed:
  "Detect_comprehension self now target matched_services w =
     (map (\<lambda>(i, service).
             fst (BuildDetectionReport self now target service
                    (w\<lparr>clock_reads := clock_reads w + i\<rparr>)))
        (enumerate 0 matched_services),
      w\<lparr>clock_reads := clock_reads w + length matched_services\<rparr>)"
proof (induction matched_services arbitrary: w)
  case Nil
  show ?case by simp
next
  case (Cons service matched_services)
  have shift:
    "map (\<lambda>(i, x). fst (BuildDetectionReport self now target x
                            (w\<lparr>clock_reads := Suc (clock_reads w + i)\<rparr>)))
       (enumerate 0 matched_services) =
     map (\<lambda>(i, x). fst (BuildDetectionReport self now target x
                            (w\<lparr>clock_reads := clock_reads w + i\<rparr>)))
       (enumerate (Suc 0) matched_services)"
    using enumerate_shift
      [of "\<lambda>i x. fst (BuildDetectionReport self now target x (w\<lparr>clock_reads := clock_reads w + i\<rparr>))"
          0 matched_services]
    by simp
  show ?case
    unfolding Detect_comprehension_step
    by (simp add: Cons.IH shift)
qed

lemma Detect_comprehension_services:
  "map network_service (fst (Detect_comprehension self now target matched_services w)) =
   matched_services"
proof (induction matched_services arbitrary: w)
  case Nil
  show ?case by simp
next
  case (Cons service matched_services)
  have "network_service (fst (BuildDetectionReport self now target service w)) = service"
    by (simp add: BuildDetectionReport_def GetCurrentTime_def)
  then show ?case
    unfolding Detect_comprehension_step
    by (simp add: Cons.IH)
qed

lemma Detect_comprehension_length:
  "length (fst (Detect_comprehension self now target matched_services w)) =
   length matched_services"
  using Detect_comprehension_services [of self now target matched_services w]
  by (metis length_map)

lemma Detect_reports:
  "detection_reports (fst (Detect self now target matched_services w)) =
   fst (Detect_comprehension self now target matched_services
          (logging_info ''ExamplePyVulnDetector starts detecting.'' w))"
  by (simp add: Detect_def split: prod.splits)

lemma Detect_world:
  "snd (Detect self now target matched_services w) =
   snd (Detect_comprehension self now target matched_services
          (logging_info ''ExamplePyVulnDetector starts detecting.'' w))"
  by (simp add: Detect_def split: prod.splits)

lemma BuildDetectionReport_timestamp_fixed:
  "(fst (BuildDetectionReport self now target service w))\<lparr>detection_timestamp := ts\<rparr> =
   (fst (BuildDetectionReport self' now' target service w'))\<lparr>detection_timestamp := ts\<rparr>"
  by (simp add: BuildDetectionReport_def GetCurrentTime_def)

lemma Detect_comprehension_timestamp_fixed:
  "map (\<lambda>r. r\<lparr>detection_timestamp := ts\<rparr>)
     (fst (Detect_comprehension self now target matched_services w)) =
   map (\<lambda>service. (fst (BuildDetectionReport self' now' target service w'))
                      \<lparr>detection_timestamp := ts\<rparr>)
     matched_services"
proof (induction matched_services arbitrary: w)
  case Nil
  show ?case by simp
next
  case (Cons service matched_services)
  show ?case
    unfolding Detect_comprehension_step
    using BuildDetectionReport_timestamp_fixed [where self = self and self' = self'
        and now = now and now' = now' and target = target and service = service
        and w = w and w' = w' and ts = ts]
    by (simp add: Cons.IH)
qed

lemma Detect_comprehension_append:
  "Detect_comprehension self now target (l1 @ l2) w =
     (fst (Detect_comprehension self now target l1 w) @
        fst (Detect_comprehension self now target l2
               (snd (Detect_comprehension self now target l1 w))),
      snd (Detect_comprehension self now target l2
               (snd (Detect_comprehension self now target l1 w))))"
proof (induction l1 arbitrary: w)
  case Nil
  show ?case by simp
next
  case (Cons service l1)
  show ?case
    unfolding append_Cons Detect_comprehension_step
    by (simp add: Cons.IH)
qed

lemma Detect_comprehension_log:
  "fst (Detect_comprehension self now target matched_services (w\<lparr>info_log := l\<rparr>)) =
   fst (Detect_comprehension self now target matched_services w)"
  by (simp add: Detect_comprehension_closed BuildDetectionReport_def GetCurrentTime_def)

lemma BuildDetectionReport_vulnerability:
  "vulnerability (fst (BuildDetectionReport self now target service w)) =
     \<lparr>main_id = \<lparr>publisher = ''vulnerability_id_publisher'', value = ''VULNERABILITY_ID''\<rparr>,
      severity = CRITICAL,
      title = ''Vulnerability Title'',
      Vulnerability.description = ''Detailed description of the vulnerability'',
      additional_details =
        [\<lparr>text_data = \<lparr>text = ''Some additional technical details.''\<rparr>\<rparr>]\<rparr>"
  by (simp add: BuildDetectionReport_def GetCurrentTime_def)

lemma Detect_comprehension_vulnerability:
  "r \<in> set (fst (Detect_comprehension self now target matched_services w)) \<Longrightarrow>
   vulnerability r =
     \<lparr>main_id = \<lparr>publisher = ''vulnerability_id_publisher'', value = ''VULNERABILITY_ID''\<rparr>,
      severity = CRITICAL,
      title = ''Vulnerability Title'',
      Vulnerability.description = ''Detailed description of the vulnerability'',
      additional_details =
        [\<lparr>text_data = \<lparr>text = ''Some additional technical details.''\<rparr>\<rparr>]\<rparr>"
proof (induction matched_services arbitrary: w)
  case Nil
  then show ?case by simp
next
  case (Cons service matched_services)
  from Cons.prems show ?case
    unfolding Detect_comprehension_step
    by (auto simp: BuildDetectionReport_vulnerability dest: Cons.IH)
qed

section \<open>Runs in which a library call raises\<close>





section \<open>Properties\<close>

text \<open>
  C1: \<open>IsServiceVulnerable\<close> is a constant function. It takes no argument besides the
  instance, and on every instance it returns \<open>True\<close>.
\<close>

theorem IsServiceVulnerable_constant: "IsServiceVulnerable self = True"
  by (simp add: IsServiceVulnerable_def)

text \<open>
  C2: for every target and every list of matched services, the reports of \<open>Detect\<close>
  are one report per element of \<open>matched_services\<close>, in the same order: the report at
  position \<open>i\<close> is \<open>_BuildDetectionReport\<close> applied to the target and the service at
  position \<open>i\<close>, in the world reached after the log line and \<open>i\<close> earlier readings of
  the clock.
\<close>

theorem Detect_one_report_per_service:
  "detection_reports (fst (Detect self now target matched_services w)) =
     map (\<lambda>(i, service).
             fst (BuildDetectionReport self now target service
                    ((logging_info ''ExamplePyVulnDetector starts detecting.'' w)
                       \<lparr>clock_reads := clock_reads w + i\<rparr>)))
       (enumerate 0 matched_services)
   \<and> length (detection_reports (fst (Detect self now target matched_services w))) =
     length matched_services"
  by (simp add: Detect_reports Detect_comprehension_length)
     (simp add: Detect_comprehension_closed logging_info_def)

text \<open>
  C3 as stated fails: the report is not one fixed value independent of the arguments.
  With the same target, clock and world, the services \<open>ssh\<close> and \<open>http\<close> give two
  different reports.
\<close>

theorem BuildDetectionReport_depends_on_service:
  "fst (BuildDetectionReport () clock_seconds ''10.0.0.1'' ''ssh'' world0) \<noteq>
   fst (BuildDetectionReport () clock_seconds ''10.0.0.1'' ''http'' world0)"
  by (simp add: BuildDetectionReport_def GetCurrentTime_def)

text \<open>
  C3, amended: \<open>_BuildDetectionReport\<close> populates a static message around its
  arguments. Apart from \<open>target_info\<close> and \<open>network_service\<close>, which are the target
  and the service given, and \<open>detection_timestamp\<close>, which is what the clock call handed
  back, the report is one fixed value, identical across all invocations.
\<close>

theorem BuildDetectionReport_static_apart_from_arguments:
  "(fst (BuildDetectionReport self1 now1 target1 service1 w1))
      \<lparr>target_info := t, network_service := s, detection_timestamp := ts\<rparr> =
   (fst (BuildDetectionReport self2 now2 target2 service2 w2))
      \<lparr>target_info := t, network_service := s, detection_timestamp := ts\<rparr>
   \<and> target_info (fst (BuildDetectionReport self1 now1 target1 service1 w1)) = target1
   \<and> network_service (fst (BuildDetectionReport self1 now1 target1 service1 w1)) = service1
   \<and> detection_timestamp (fst (BuildDetectionReport self1 now1 target1 service1 w1)) =
       fst (GetCurrentTime now1 w1)"
  by (simp add: BuildDetectionReport_def GetCurrentTime_def)

text \<open>
  C4: every report built by \<open>_BuildDetectionReport\<close> describes one confirmed finding
  against one service: its status is \<open>VULNERABILITY_VERIFIED\<close>, its
  \<open>network_service\<close> is the service passed in and its \<open>target_info\<close> is the target
  passed in.
\<close>

theorem BuildDetectionReport_verified_finding:
  "detection_status (fst (BuildDetectionReport self now target service w)) =
     VULNERABILITY_VERIFIED
   \<and> network_service (fst (BuildDetectionReport self now target service w)) = service
   \<and> target_info (fst (BuildDetectionReport self now target service w)) = target"
  by (simp add: BuildDetectionReport_def GetCurrentTime_def)

text \<open>
  C5: \<open>GetPluginDefinition\<close> returns the same definition on every call and every
  instance; its \<open>PluginInfo\<close> has type \<open>VULN_DETECTION\<close>, name
  \<open>ExamplePyVulnDetector\<close>, version \<open>0.1\<close>, description
  \<open>This is an example python plugin\<close> and author \<open>Alice (alice@company.com)\<close>.
\<close>

theorem GetPluginDefinition_static:
  "GetPluginDefinition self = GetPluginDefinition self'
   \<and> type (info (GetPluginDefinition self)) = VULN_DETECTION
   \<and> name (info (GetPluginDefinition self)) = ''ExamplePyVulnDetector''
   \<and> version (info (GetPluginDefinition self)) = ''0.1''
   \<and> PluginInfo.description (info (GetPluginDefinition self)) =
       ''This is an example python plugin''
   \<and> author (info (GetPluginDefinition self)) = ''Alice (alice@company.com)''"
  by (simp add: GetPluginDefinition_def)

text \<open>
  C6: the detection decision does not depend on the scanned data. Two runs of
  \<open>Detect\<close> on service lists of equal length return the same number of reports,
  whatever the services, the targets, the clocks and the worlds; and in each run every
  service is reported, in order.
\<close>

theorem Detect_count_independent_of_data:
  assumes "length l1 = length l2"
  shows "length (detection_reports (fst (Detect self1 now1 target1 l1 w1))) =
         length (detection_reports (fst (Detect self2 now2 target2 l2 w2)))
       \<and> map network_service (detection_reports (fst (Detect self1 now1 target1 l1 w1))) = l1
       \<and> map network_service (detection_reports (fst (Detect self2 now2 target2 l2 w2))) = l2"
  using assms
  by (simp add: Detect_reports Detect_comprehension_length Detect_comprehension_services)

theorem Detect_count_independent_of_data_witness:
  "length [''ssh'', ''http''] = length [22 :: nat, 8080]
   \<and> length (detection_reports
        (fst (Detect () clock_seconds ''10.0.0.1'' [''ssh'', ''http''] world0))) =
     length (detection_reports
        (fst (Detect () clock_unset (7 :: int) [22 :: nat, 8080]
               (world0\<lparr>clock_reads := 5\<rparr>))))
   \<and> map network_service (detection_reports
        (fst (Detect () clock_seconds ''10.0.0.1'' [''ssh'', ''http''] world0))) =
     [''ssh'', ''http'']"
proof -
  have h: "length [''ssh'', ''http''] = length [22 :: nat, 8080]"
    by simp
  show ?thesis
    using h Detect_count_independent_of_data [OF h, of "()" clock_seconds "''10.0.0.1''" world0
        "()" clock_unset "7 :: int" "world0\<lparr>clock_reads := 5\<rparr>"]
    by simp
qed

text \<open>
  C7: \<open>Detect\<close> neither aggregates nor deduplicates. A service that occurs \<open>k\<close>
  times in \<open>matched_services\<close> has exactly \<open>k\<close> reports whose
  \<open>network_service\<close> is that service.
\<close>

theorem Detect_no_deduplication:
  "length (filter (\<lambda>r. network_service r = service)
             (detection_reports (fst (Detect self now target matched_services w)))) =
   count_list matched_services service"
proof -
  have "length (filter (\<lambda>r. network_service r = service)
                  (detection_reports (fst (Detect self now target matched_services w)))) =
        length (filter (\<lambda>x. x = service)
                  (map network_service
                     (detection_reports (fst (Detect self now target matched_services w)))))"
    by (simp add: filter_map comp_def)
  also have "\<dots> = length (filter (\<lambda>x. x = service) matched_services)"
    by (simp only: Detect_reports Detect_comprehension_services)
  also have "\<dots> = count_list matched_services service"
    by (induction matched_services) simp_all
  finally show ?thesis .
qed

text \<open>
  C8: every report in the output of \<open>Detect\<close> carries the same hard-coded
  vulnerability: severity \<open>CRITICAL\<close>, the fixed title and description, the fixed
  publisher and value of \<open>main_id\<close>, and exactly one additional detail with the fixed
  text.
\<close>

theorem Detect_static_payload:
  "\<forall>r \<in> set (detection_reports (fst (Detect self now target matched_services w))).
     severity (vulnerability r) = CRITICAL
     \<and> title (vulnerability r) = ''Vulnerability Title''
     \<and> Vulnerability.description (vulnerability r) =
         ''Detailed description of the vulnerability''
     \<and> publisher (main_id (vulnerability r)) = ''vulnerability_id_publisher''
     \<and> value (main_id (vulnerability r)) = ''VULNERABILITY_ID''
     \<and> map (\<lambda>d. text (text_data d)) (additional_details (vulnerability r)) =
         [''Some additional technical details.'']"
proof
  fix r
  assume "r \<in> set (detection_reports (fst (Detect self now target matched_services w)))"
  then have "r \<in> set (fst (Detect_comprehension self now target matched_services
                            (logging_info ''ExamplePyVulnDetector starts detecting.'' w)))"
    by (simp only: Detect_reports)
  then show "severity (vulnerability r) = CRITICAL
     \<and> title (vulnerability r) = ''Vulnerability Title''
     \<and> Vulnerability.description (vulnerability r) =
         ''Detailed description of the vulnerability''
     \<and> publisher (main_id (vulnerability r)) = ''vulnerability_id_publisher''
     \<and> value (main_id (vulnerability r)) = ''VULNERABILITY_ID''
     \<and> map (\<lambda>d. text (text_data d)) (additional_details (vulnerability r)) =
         [''Some additional technical details.'']"
    by (simp add: Detect_comprehension_vulnerability)
qed

theorem Detect_static_payload_witness:
  "severity (vulnerability
     (detection_reports (fst (Detect () clock_seconds ''10.0.0.1'' [''ssh'', ''http''] world0)) ! 1))
     = CRITICAL
   \<and> map (\<lambda>d. text (text_data d)) (additional_details (vulnerability
     (detection_reports (fst (Detect () clock_seconds ''10.0.0.1'' [''ssh'', ''http''] world0)) ! 1)))
     = [''Some additional technical details.'']
   \<and> length (detection_reports
        (fst (Detect () clock_seconds ''10.0.0.1'' [''ssh'', ''http''] world0))) = 2"
proof -
  have len: "length (detection_reports
        (fst (Detect () clock_seconds ''10.0.0.1'' [''ssh'', ''http''] world0))) = 2"
    by (simp add: Detect_def IsServiceVulnerable_def BuildDetectionReport_def
        GetCurrentTime_def logging_info_def)
  then have "detection_reports
        (fst (Detect () clock_seconds ''10.0.0.1'' [''ssh'', ''http''] world0)) ! 1
     \<in> set (detection_reports
        (fst (Detect () clock_seconds ''10.0.0.1'' [''ssh'', ''http''] world0)))"
    by simp
  with Detect_static_payload [of "()" clock_seconds "''10.0.0.1''" "[''ssh'', ''http'']" world0] len
  show ?thesis by blast
qed

text \<open>
  C9: \<open>Detect\<close> is a list homomorphism over \<open>matched_services\<close>. With the
  timestamp of every report set to one fixed value, the reports for \<open>l1 @ l2\<close> are
  the reports for \<open>l1\<close> followed by the reports for \<open>l2\<close>, whatever the clocks and
  the worlds of the three runs. With the timestamps left as they are, the same holds when
  the run on \<open>l2\<close> starts in the world the run on \<open>l1\<close> ended in.
\<close>

theorem Detect_append:
  "map (\<lambda>r. r\<lparr>detection_timestamp := ts\<rparr>)
     (detection_reports (fst (Detect self now target (l1 @ l2) w))) =
   map (\<lambda>r. r\<lparr>detection_timestamp := ts\<rparr>)
     (detection_reports (fst (Detect self now1 target l1 w1))) @
   map (\<lambda>r. r\<lparr>detection_timestamp := ts\<rparr>)
     (detection_reports (fst (Detect self now2 target l2 w2)))
   \<and> detection_reports (fst (Detect self now target (l1 @ l2) w)) =
     detection_reports (fst (Detect self now target l1 w)) @
     detection_reports
       (fst (Detect self now target l2 (snd (Detect self now target l1 w))))"
proof
  show "map (\<lambda>r. r\<lparr>detection_timestamp := ts\<rparr>)
     (detection_reports (fst (Detect self now target (l1 @ l2) w))) =
   map (\<lambda>r. r\<lparr>detection_timestamp := ts\<rparr>)
     (detection_reports (fst (Detect self now1 target l1 w1))) @
   map (\<lambda>r. r\<lparr>detection_timestamp := ts\<rparr>)
     (detection_reports (fst (Detect self now2 target l2 w2)))"
    by (simp only: Detect_reports map_append
        Detect_comprehension_timestamp_fixed [where self' = self and now' = now and w' = w])
next
  have "snd (Detect self now target l1 w) =
        snd (Detect_comprehension self now target l1
               (logging_info ''ExamplePyVulnDetector starts detecting.'' w))"
    by (rule Detect_world)
  then show "detection_reports (fst (Detect self now target (l1 @ l2) w)) =
     detection_reports (fst (Detect self now target l1 w)) @
     detection_reports
       (fst (Detect self now target l2 (snd (Detect self now target l1 w))))"
    by (simp add: Detect_reports Detect_comprehension_append logging_info_def
        Detect_comprehension_log)
qed



end
